theory Spec2Isabelle
  imports Complex_Main
begin

section \<open>Python values, comparison and the cell state\<close>

text \<open>
  The notebook \<^verbatim>\<open>8-week8/0-classifier-introduction.ipynb\<close> defines two functions of
  its own, \<^verbatim>\<open>classify_price\<close> and \<^verbatim>\<open>pprint_preds\<close>. Both are embedded here over a
  small model of the Python values they can meet.

  A float is a point of the extended real line or NaN. \<open>Fin r\<close> ranges over all reals, a
  superset of the finite doubles, so a statement for every \<open>Fin r\<close> covers every finite
  float; no float arithmetic happens in the notebook's own code, only comparison, and
  Python compares an int with a float by exact value.
\<close>

datatype pynum = Fin real | PosInf | NegInf | NaN

datatype pyval =
    PyInt int
  | PyBool bool
  | PyFloat pynum
  | PyComplex pynum pynum
  | PyStr string
  | PyNone
  | PyList "pyval list"

datatype pyerror = TypeError | NameError

text \<open>
  The value an int, a bool (a subclass of int: \<^verbatim>\<open>True\<close> is 1, \<^verbatim>\<open>False\<close> is 0) or a
  float stands for in an ordering comparison. Complex numbers, strings, \<^verbatim>\<open>None\<close> and
  lists have no order with an int.
\<close>

fun number_of :: "pyval \<Rightarrow> pynum option" where
  "number_of (PyInt i) = Some (Fin (of_int i))"
| "number_of (PyBool b) = Some (Fin (if b then 1 else 0))"
| "number_of (PyFloat x) = Some x"
| "number_of (PyComplex re im) = None"
| "number_of (PyStr s) = None"
| "number_of PyNone = None"
| "number_of (PyList xs) = None"

fun is_real_number :: "pyval \<Rightarrow> bool" where
  "is_real_number (PyInt i) = True"
| "is_real_number (PyBool b) = True"
| "is_real_number (PyFloat x) = True"
| "is_real_number (PyComplex re im) = False"
| "is_real_number (PyStr s) = False"
| "is_real_number PyNone = False"
| "is_real_number (PyList xs) = False"

text \<open>
  Python's built-in numeric types are int, bool, float and complex. \<open>is_number\<close> holds of
  all four; \<open>is_real_number\<close> above holds of the three that have an order.
\<close>

fun is_number :: "pyval \<Rightarrow> bool" where
  "is_number (PyInt i) = True"
| "is_number (PyBool b) = True"
| "is_number (PyFloat x) = True"
| "is_number (PyComplex re im) = True"
| "is_number (PyStr s) = False"
| "is_number PyNone = False"
| "is_number (PyList xs) = False"

text \<open>The order of numbers: NaN is below nothing and above nothing, itself included.\<close>

fun num_lt :: "pynum \<Rightarrow> pynum \<Rightarrow> bool" where
  "num_lt NaN y = False"
| "num_lt x NaN = False"
| "num_lt (Fin a) (Fin b) = (a < b)"
| "num_lt (Fin a) PosInf = True"
| "num_lt (Fin a) NegInf = False"
| "num_lt PosInf y = False"
| "num_lt NegInf NegInf = False"
| "num_lt NegInf y = True"

fun num_le :: "pynum \<Rightarrow> pynum \<Rightarrow> bool" where
  "num_le NaN y = False"
| "num_le x NaN = False"
| "num_le (Fin a) (Fin b) = (a \<le> b)"
| "num_le (Fin a) PosInf = True"
| "num_le (Fin a) NegInf = False"
| "num_le PosInf PosInf = True"
| "num_le PosInf y = False"
| "num_le NegInf y = True"

text \<open>
  \<^verbatim>\<open>v < k\<close> for an int literal \<open>k\<close>, as in \<^verbatim>\<open>price < 80\<close>: a truth value on numbers,
  \<^verbatim>\<open>TypeError\<close> (\<^verbatim>\<open>'<' not supported between instances of ...\<close>) on everything else.
\<close>

definition py_lt :: "pyval \<Rightarrow> int \<Rightarrow> pyerror + bool" where
  "py_lt v k =
     (case number_of v of
        None \<Rightarrow> Inl TypeError
      | Some x \<Rightarrow> Inr (num_lt x (Fin (of_int k))))"

text \<open>
  What a call can read or change: the notebook's global variables, shared by all cells,
  and the text printed so far.
\<close>

record pystate =
  globals :: "string \<rightharpoonup> pyval"
  stdout :: string

type_synonym 'a exec = "pystate \<Rightarrow> (pyerror + 'a) \<times> pystate"

definition exec_return :: "'a \<Rightarrow> 'a exec" where
  "exec_return x s = (Inr x, s)"

definition exec_lift :: "pyerror + 'a \<Rightarrow> 'a exec" where
  "exec_lift r s = (r, s)"

text \<open>Sequencing: an exception ends the call, keeping what was printed before it.\<close>

definition exec_bind :: "'a exec \<Rightarrow> ('a \<Rightarrow> 'b exec) \<Rightarrow> 'b exec" where
  "exec_bind m f s =
     (case m s of
        (Inl e, s') \<Rightarrow> (Inl e, s')
      | (Inr x, s') \<Rightarrow> f x s')"

section \<open>classify\_price\<close>

text \<open>
  \<^verbatim>\<open>
  def classify_price(price):
      if price < 80:
          return "low"
      elif price < 140:
          return "medium"
      else:
          return "high"
  \<close>
\<close>

definition classify_price :: "pyval \<Rightarrow> string exec" where
  "classify_price price =
     exec_bind (exec_lift (py_lt price 80)) (\<lambda>below80.
       if below80 then exec_return ''low''
       else exec_bind (exec_lift (py_lt price 140)) (\<lambda>below140.
         if below140 then exec_return ''medium''
         else exec_return ''high''))"

text \<open>The state of a notebook before any cell has run: no global bound, nothing printed.\<close>

definition fresh :: pystate where
  "fresh = \<lparr>globals = Map.empty, stdout = []\<rparr>"

text \<open>
  The order of the labels, \<^verbatim>\<open>"low" < "medium" < "high"\<close>, by rank; any other string
  has no rank and is related to nothing.
\<close>

definition labels :: "string list" where
  "labels = [''low'', ''medium'', ''high'']"

definition label_rank :: "string \<Rightarrow> nat option" where
  "label_rank l =
     (if l = ''low'' then Some 0
      else if l = ''medium'' then Some 1
      else if l = ''high'' then Some 2
      else None)"

definition label_le :: "string \<Rightarrow> string \<Rightarrow> bool" where
  "label_le a b =
     (case (label_rank a, label_rank b) of
        (Some i, Some j) \<Rightarrow> i \<le> j
      | _ \<Rightarrow> False)"

section \<open>pprint\_preds\<close>

text \<open>\<^verbatim>\<open>print(text)\<close>: the text and a line feed go to the output; nothing else changes.\<close>

definition nl :: string where
  "nl = [CHR 0x0A]"

definition py_print :: "string \<Rightarrow> unit exec" where
  "py_print text s = (Inr (), s\<lparr>stdout := stdout s @ text @ nl\<rparr>)"

text \<open>
  Reading a name that is not local to the function: the global of that name, or
  \<^verbatim>\<open>NameError\<close> when no cell has bound it.
\<close>

definition load_global :: "string \<Rightarrow> pyval exec" where
  "load_global name s =
     (case globals s name of
        None \<Rightarrow> (Inl NameError, s)
      | Some v \<Rightarrow> (Inr v, s))"

text \<open>
  \<^verbatim>\<open>sep.join(v)\<close>. The argument is iterated: a list (or tuple, or one-dimensional array)
  gives its items, a string its one-character strings, anything else is not iterable.
  Every item has to be a string.
\<close>

fun items_of :: "pyval \<Rightarrow> pyerror + pyval list" where
  "items_of (PyList xs) = Inr xs"
| "items_of (PyStr s) = Inr (map (\<lambda>c. PyStr [c]) s)"
| "items_of v = Inl TypeError"

fun str_items :: "pyval list \<Rightarrow> pyerror + string list" where
  "str_items [] = Inr []"
| "str_items (PyStr s # vs) =
     (case str_items vs of
        Inl e \<Rightarrow> Inl e
      | Inr ss \<Rightarrow> Inr (s # ss))"
| "str_items (v # vs) = Inl TypeError"

fun join :: "string \<Rightarrow> string list \<Rightarrow> string" where
  "join sep [] = []"
| "join sep [s] = s"
| "join sep (s # t # ss) = s @ sep @ join sep (t # ss)"

definition py_join :: "string \<Rightarrow> pyval \<Rightarrow> pyerror + string" where
  "py_join sep v =
     (case items_of v of
        Inl e \<Rightarrow> Inl e
      | Inr vs \<Rightarrow>
          (case str_items vs of
             Inl e \<Rightarrow> Inl e
           | Inr ss \<Rightarrow> Inr (join sep ss)))"

text \<open>
  \<^verbatim>\<open>
  def pprint_preds(p):
      print("Iris Predictions")
      print("----------------")
      print(textwrap.fill(",".join(predictions)))
  \<close>
  \<^verbatim>\<open>textwrap.fill\<close> belongs to the standard library, not to the notebook; it is the
  parameter \<open>fill\<close>, a function from a string to the wrapped string. The name
  \<^verbatim>\<open>predictions\<close> is not the parameter \<^verbatim>\<open>p\<close> and is not assigned in the body, so
  it is read from the globals, where the first code cell binds it to
  \<^verbatim>\<open>regressor.predict([[3.5], [7.5]])\<close>. The call returns \<^verbatim>\<open>None\<close>, here \<open>()\<close>.
\<close>

definition pprint_preds :: "(string \<Rightarrow> string) \<Rightarrow> pyval \<Rightarrow> unit exec" where
  "pprint_preds fill p =
     exec_bind (py_print ''Iris Predictions'') (\<lambda>_.
     exec_bind (py_print ''----------------'') (\<lambda>_.
     exec_bind (load_global ''predictions'') (\<lambda>predictions.
     exec_bind (exec_lift (py_join '','' predictions)) (\<lambda>joined.
     py_print (fill joined)))))"

text \<open>
  Two states to run it in: one where \<^verbatim>\<open>predictions\<close> holds labels, and one as the
  first code cell leaves it, holding the regressor's two float predictions.
\<close>

definition with_labels :: pystate where
  "with_labels =
     \<lparr>globals = [''predictions'' \<mapsto> PyList [PyStr ''low'', PyStr ''medium'']],
      stdout = []\<rparr>"

definition after_first_cell :: pystate where
  "after_first_cell =
     \<lparr>globals = [''predictions'' \<mapsto> PyList [PyFloat (Fin 60), PyFloat (Fin 120)]],
      stdout = []\<rparr>"

section \<open>Properties of classify\_price\<close>

lemma is_real_number_iff: "is_real_number v \<longleftrightarrow> (\<exists>x. number_of v = Some x)"
  by (cases v) simp_all

lemma classify_price_number:
  assumes "number_of price = Some x"
  shows "classify_price price s =
           (Inr (if num_lt x (Fin 80) then ''low''
                 else if num_lt x (Fin 140) then ''medium'' else ''high''), s)"
  using assms
  by (simp add: classify_price_def exec_bind_def exec_lift_def exec_return_def py_lt_def)

lemma classify_price_not_number:
  assumes "number_of price = None"
  shows "classify_price price s = (Inl TypeError, s)"
  using assms
  by (simp add: classify_price_def exec_bind_def exec_lift_def py_lt_def)

text \<open>
  C1. For every numeric input \<open>price\<close> strictly less than 80, \<^verbatim>\<open>classify_price(price)\<close>
  returns the string \<^verbatim>\<open>"low"\<close>.
\<close>

theorem classify_price_low:
  assumes "number_of price = Some x" and "num_lt x (Fin 80)"
  shows "fst (classify_price price s) = Inr ''low''"
  using assms by (simp add: classify_price_number)

theorem classify_price_low_witness:
  "number_of (PyFloat (Fin 60)) = Some (Fin 60) \<and> num_lt (Fin 60) (Fin 80)
   \<and> fst (classify_price (PyFloat (Fin 60)) fresh) = Inr ''low''"
  using classify_price_low [of "PyFloat (Fin 60)" "Fin 60" fresh] by simp

text \<open>
  C2. For every numeric input \<open>price\<close> with \<open>80 \<le> price < 140\<close>,
  \<^verbatim>\<open>classify_price(price)\<close> returns the string \<^verbatim>\<open>"medium"\<close>; in particular
  \<^verbatim>\<open>classify_price(80)\<close> is \<^verbatim>\<open>"medium"\<close>.
\<close>

theorem classify_price_medium:
  "(number_of price = Some x \<and> num_le (Fin 80) x \<and> num_lt x (Fin 140)
      \<longrightarrow> fst (classify_price price s) = Inr ''medium'')
   \<and> fst (classify_price (PyInt 80) s) = Inr ''medium''"
proof (intro conjI impI)
  assume h: "number_of price = Some x \<and> num_le (Fin 80) x \<and> num_lt x (Fin 140)"
  then have "\<not> num_lt x (Fin 80)"
    by (cases x) simp_all
  with h show "fst (classify_price price s) = Inr ''medium''"
    by (simp add: classify_price_number)
next
  show "fst (classify_price (PyInt 80) s) = Inr ''medium''"
    by (simp add: classify_price_number)
qed

theorem classify_price_medium_witness:
  "number_of (PyFloat (Fin 120)) = Some (Fin 120)
   \<and> num_le (Fin 80) (Fin 120) \<and> num_lt (Fin 120) (Fin 140)
   \<and> fst (classify_price (PyFloat (Fin 120)) fresh) = Inr ''medium''
   \<and> fst (classify_price (PyInt 80) fresh) = Inr ''medium''"
  using classify_price_medium [of "PyFloat (Fin 120)" "Fin 120" fresh] by simp

text \<open>
  C3. For every numeric input \<open>price\<close> with \<open>price \<ge> 140\<close>, \<^verbatim>\<open>classify_price(price)\<close>
  returns the string \<^verbatim>\<open>"high"\<close>; in particular \<^verbatim>\<open>classify_price(140)\<close> is
  \<^verbatim>\<open>"high"\<close>.
\<close>

theorem classify_price_high:
  "(number_of price = Some x \<and> num_le (Fin 140) x
      \<longrightarrow> fst (classify_price price s) = Inr ''high'')
   \<and> fst (classify_price (PyInt 140) s) = Inr ''high''"
proof (intro conjI impI)
  assume h: "number_of price = Some x \<and> num_le (Fin 140) x"
  then have "\<not> num_lt x (Fin 80)" and "\<not> num_lt x (Fin 140)"
    by (cases x; simp)+
  with h show "fst (classify_price price s) = Inr ''high''"
    by (simp add: classify_price_number)
next
  show "fst (classify_price (PyInt 140) s) = Inr ''high''"
    by (simp add: classify_price_number)
qed

theorem classify_price_high_witness:
  "number_of (PyFloat PosInf) = Some PosInf \<and> num_le (Fin 140) PosInf
   \<and> fst (classify_price (PyFloat PosInf) fresh) = Inr ''high''
   \<and> fst (classify_price (PyInt 140) fresh) = Inr ''high''"
  using classify_price_high [of "PyFloat PosInf" PosInf fresh] by simp

text \<open>
  C4, as amended. \<^verbatim>\<open>classify_price\<close> is total on the ordered numeric scalars: for
  every int, bool or float input (the infinities and NaN included) it returns exactly
  one of the three fixed labels \<^verbatim>\<open>"low"\<close>, \<^verbatim>\<open>"medium"\<close>, \<^verbatim>\<open>"high"\<close>; no such
  input falls outside the three branches. NaN, which is below neither threshold, takes
  the last branch. A complex input is numeric too, and there the claim as written
  fails: see the counterexample below.
\<close>

theorem classify_price_total:
  assumes "is_real_number price"
  shows "\<exists>!l. l \<in> set labels \<and> fst (classify_price price s) = Inr l"
proof -
  from assms obtain x where "number_of price = Some x"
    by (auto simp: is_real_number_iff)
  then show ?thesis
    by (auto simp: classify_price_number labels_def)
qed

theorem classify_price_total_witness:
  "is_real_number (PyFloat NaN)
   \<and> (\<exists>!l. l \<in> set labels \<and> fst (classify_price (PyFloat NaN) fresh) = Inr l)
   \<and> fst (classify_price (PyFloat NaN) fresh) = Inr ''high''"
  using classify_price_total [of "PyFloat NaN" fresh]
  by (simp add: classify_price_number)

text \<open>
  C4 as written, for every numeric input, fails on a complex number: \<^verbatim>\<open>1+2j\<close> is a
  numeric scalar, the comparison \<^verbatim>\<open>price < 80\<close> raises \<^verbatim>\<open>TypeError\<close> on it, and the
  call returns no label.
\<close>

theorem classify_price_total_counterexample:
  "is_number (PyComplex (Fin 1) (Fin 2))
   \<and> fst (classify_price (PyComplex (Fin 1) (Fin 2)) fresh) = Inl TypeError"
  by (simp add: classify_price_not_number)




text \<open>
  C8. \<^verbatim>\<open>classify_price\<close> is deterministic: two evaluations on the same input yield the
  same result, whatever the globals and the output are at either call; the result
  depends on nothing but the argument.
\<close>

theorem classify_price_deterministic:
  "fst (classify_price price s) = fst (classify_price price s')"
  by (cases "number_of price")
     (simp_all add: classify_price_number classify_price_not_number)

text \<open>
  C9. \<^verbatim>\<open>classify_price\<close> is monotone: for all numeric inputs \<open>p1 \<le> p2\<close>, the label of
  \<open>p1\<close> precedes or equals the label of \<open>p2\<close> in the order
  \<^verbatim>\<open>"low" < "medium" < "high"\<close>.
\<close>

theorem classify_price_monotone:
  assumes "number_of p1 = Some x" and "number_of p2 = Some y" and "num_le x y"
  shows "\<exists>a b. fst (classify_price p1 s) = Inr a \<and> fst (classify_price p2 s') = Inr b
           \<and> label_le a b"
proof -
  have lt: "num_lt x (Fin k)" if "num_lt y (Fin k)" for k
    using that \<open>num_le x y\<close> by (cases x; cases y) simp_all
  show ?thesis
    using lt [of 80] lt [of 140]
    by (auto simp: classify_price_number assms(1,2) label_le_def label_rank_def)
qed

theorem classify_price_monotone_witness:
  "number_of (PyInt 79) = Some (Fin 79) \<and> number_of (PyFloat (Fin 80)) = Some (Fin 80)
   \<and> num_le (Fin 79) (Fin 80)
   \<and> (\<exists>a b. fst (classify_price (PyInt 79) fresh) = Inr a
         \<and> fst (classify_price (PyFloat (Fin 80)) fresh) = Inr b \<and> label_le a b)"
  using classify_price_monotone [of "PyInt 79" "Fin 79" "PyFloat (Fin 80)" "Fin 80" fresh fresh]
  by simp

section \<open>Properties of pprint\_preds\<close>

lemma pprint_preds_unbound:
  assumes "globals s ''predictions'' = None"
  shows "pprint_preds fill p s =
           (Inl NameError,
            s\<lparr>stdout := stdout s @ ''Iris Predictions'' @ nl @ ''----------------'' @ nl\<rparr>)"
  using assms
  by (simp add: pprint_preds_def exec_bind_def py_print_def load_global_def)

lemma pprint_preds_bound:
  assumes "globals s ''predictions'' = Some v"
  shows "pprint_preds fill p s =
           (case py_join '','' v of
              Inl e \<Rightarrow>
                (Inl e,
                 s\<lparr>stdout := stdout s @ ''Iris Predictions'' @ nl @ ''----------------'' @ nl\<rparr>)
            | Inr joined \<Rightarrow>
                (Inr (),
                 s\<lparr>stdout := stdout s @ ''Iris Predictions'' @ nl @ ''----------------'' @ nl
                                @ fill joined @ nl\<rparr>))"
  using assms
  by (simp add: pprint_preds_def exec_bind_def exec_lift_def py_print_def load_global_def
        split: sum.splits)

text \<open>
  C5. The claim: \<^verbatim>\<open>pprint_preds\<close>, applied to a sequence of string predictions, prints
  the comma-join of the elements of its argument, wrapped. The code joins the global
  \<^verbatim>\<open>predictions\<close> instead. Called with the one prediction \<^verbatim>\<open>["setosa"]\<close> while the global
  holds \<^verbatim>\<open>["low", "medium"]\<close>, it prints the wrapping of \<^verbatim>\<open>"low,medium"\<close>; called in
  the state the first code cell leaves, where the global holds floats, it prints the two
  header lines and raises \<^verbatim>\<open>TypeError\<close>.
\<close>

theorem pprint_preds_joins_the_global:
  "fst (pprint_preds fill (PyList [PyStr ''setosa'']) with_labels) = Inr ()
   \<and> stdout (snd (pprint_preds fill (PyList [PyStr ''setosa'']) with_labels)) =
       ''Iris Predictions'' @ nl @ ''----------------'' @ nl @ fill ''low,medium'' @ nl
   \<and> fst (pprint_preds fill (PyList [PyStr ''setosa'']) after_first_cell) = Inl TypeError
   \<and> stdout (snd (pprint_preds fill (PyList [PyStr ''setosa'']) after_first_cell)) =
       ''Iris Predictions'' @ nl @ ''----------------'' @ nl"
proof -
  have a: "globals with_labels ''predictions'' = Some (PyList [PyStr ''low'', PyStr ''medium''])"
    by (simp add: with_labels_def)
  have b: "globals after_first_cell ''predictions'' =
             Some (PyList [PyFloat (Fin 60), PyFloat (Fin 120)])"
    by (simp add: after_first_cell_def)
  have c: "stdout with_labels = []" "stdout after_first_cell = []"
    by (simp_all add: with_labels_def after_first_cell_def)
  show ?thesis
    by (simp add: pprint_preds_bound [OF a] pprint_preds_bound [OF b] c py_join_def)
qed

text \<open>
  C6. Neither function holds or mutates program state: \<^verbatim>\<open>classify_price\<close> leaves the
  whole state as it was, and \<^verbatim>\<open>pprint_preds\<close> changes no variable; it only appends to
  the output.
\<close>

theorem functions_change_no_variable:
  "snd (classify_price price s) = s
   \<and> globals (snd (pprint_preds fill p s)) = globals s
   \<and> (\<exists>out. stdout (snd (pprint_preds fill p s)) = stdout s @ out)"
proof (intro conjI)
  show "snd (classify_price price s) = s"
    by (cases "number_of price")
       (simp_all add: classify_price_number classify_price_not_number)
next
  show "globals (snd (pprint_preds fill p s)) = globals s"
    by (cases "globals s ''predictions''")
       (simp_all add: pprint_preds_unbound pprint_preds_bound split: sum.splits)
next
  show "\<exists>out. stdout (snd (pprint_preds fill p s)) = stdout s @ out"
    by (cases "globals s ''predictions''")
       (simp_all add: pprint_preds_unbound pprint_preds_bound split: sum.splits)
qed

text \<open>
  C10. The printed output of \<^verbatim>\<open>pprint_preds\<close> does not depend on its parameter \<open>p\<close>:
  with the globals held fixed, any two arguments give the same result and the same
  output, because the body reads the global \<^verbatim>\<open>predictions\<close> and never uses \<open>p\<close>.
\<close>

theorem pprint_preds_ignores_parameter:
  "pprint_preds fill p1 s = pprint_preds fill p2 s"
  by (simp add: pprint_preds_def)

end
